theory Spec2Isabelle
  imports Main "HOL-Library.Sublist"
begin

section \<open>JavaScript values used by the chart client\<close>

text \<open>
  A field read through \<^verbatim>\<open>??\<close> or tested for truthiness may be missing from the
  object (\<^verbatim>\<open>undefined\<close>), be \<^verbatim>\<open>null\<close>, or carry a value.
\<close>

datatype 'a optional = Undefined | Null | Defined 'a

text \<open>\<^verbatim>\<open>x ?? d\<close>: the default is taken for \<^verbatim>\<open>undefined\<close> and \<^verbatim>\<open>null\<close> only.\<close>

fun nullish :: "'a optional \<Rightarrow> 'a \<Rightarrow> 'a" where
  "nullish Undefined d = d"
| "nullish Null d = d"
| "nullish (Defined x) d = x"

text \<open>
  The declarative chart configuration is an arbitrary JSON-like value. Objects are
  association lists read by key (first binding); the payload of a number is never
  inspected by the code modelled here.
\<close>

datatype js_value =
    JUndefined
  | JNull
  | JBool bool
  | JNum int
  | JStr string
  | JArr "js_value list"
  | JObj "(string \<times> js_value) list"

text \<open>
  Property read \<^verbatim>\<open>v?.k\<close> for an own data property \<open>k\<close> (here only \<^verbatim>\<open>series\<close> and
  \<^verbatim>\<open>type\<close>, which no primitive wrapper or array defines): an object yields the
  bound value, everything else \<^verbatim>\<open>undefined\<close>.
\<close>

fun get_prop :: "js_value \<Rightarrow> string \<Rightarrow> js_value" where
  "get_prop (JObj kvs) k = (case map_of kvs k of None \<Rightarrow> JUndefined | Some v \<Rightarrow> v)"
| "get_prop v k = JUndefined"

text \<open>\<^verbatim>\<open>typeof v === "string"\<close>\<close>

fun is_string :: "js_value \<Rightarrow> bool" where
  "is_string (JStr s) = True"
| "is_string v = False"

text \<open>
  \<^verbatim>\<open>String.prototype.toLowerCase\<close> is a built-in of the language: it follows the Unicode
  case mappings and is not part of the program. The functions that call it take it as
  their first argument, the function \<open>toLowerCase\<close> on strings, and every general
  statement below holds for whatever function that is.

  To evaluate the program at concrete inputs, \<open>ascii_toLowerCase\<close> gives the values of the
  built-in on ASCII strings (\<open>is_ascii\<close>: every character below 128): there the letters
  \<open>A\<close> to \<open>Z\<close> are mapped to \<open>a\<close> to \<open>z\<close> and every other character is kept. It stands
  in for the built-in at such strings only; on any other string it says nothing about
  the built-in.
\<close>

definition is_ascii :: "string \<Rightarrow> bool" where
  "is_ascii s = list_all (\<lambda>c. (of_char c :: nat) < 128) s"

definition ascii_lower_char :: "char \<Rightarrow> char" where
  "ascii_lower_char c =
     (let n = (of_char c :: nat) in if 65 \<le> n \<and> n \<le> 90 then char_of (n + 32) else c)"

definition ascii_toLowerCase :: "string \<Rightarrow> string" where
  "ascii_toLowerCase s = map ascii_lower_char s"

text \<open>\<^verbatim>\<open>s.includes(t)\<close>: \<open>t\<close> occurs in \<open>s\<close> as a contiguous substring.\<close>

fun str_includes :: "string \<Rightarrow> string \<Rightarrow> bool" where
  "str_includes [] t = (t = [])"
| "str_includes (c # s) t = (prefix t (c # s) \<or> str_includes s t)"

text \<open>
  \<^verbatim>\<open>xs.slice(start, end)\<close> of \<^verbatim>\<open>Array.prototype\<close>: a negative index counts from the
  end, both indices are clamped to the array, and an empty range gives the empty array.
\<close>

definition slice :: "'a list \<Rightarrow> int \<Rightarrow> int \<Rightarrow> 'a list" where
  "slice xs start end' =
     (let n = int (length xs);
          k = (if start < 0 then max (n + start) 0 else min start n);
          final = (if end' < 0 then max (n + end') 0 else min end' n)
      in take (nat (final - k)) (drop (nat k) xs))"

section \<open>Data contracts (types.ts)\<close>

record ColumnSummary =
  name :: string
  dtype :: string
  non_null :: int
  sample_values :: "js_value list"

type_synonym PreviewRow = "(string \<times> js_value) list"

record ChartIdea =
  title :: string
  description :: string
  chart_type :: "string optional"
  option :: js_value

datatype role = user | assistant

record Message =
  role :: role
  content :: string

text \<open>
  The collaborators' responses. The fields that \<^verbatim>\<open>App\<close> reads through \<^verbatim>\<open>??\<close> are
  modelled with the three cases of \<open>optional\<close>; the declared types promise \<open>Defined\<close>.
\<close>

record UploadResponse =
  sessionId :: string
  columns :: "ColumnSummary list"
  preview :: "PreviewRow list"

record ChatResponse =
  reply :: string
  charts :: "ChartIdea list optional"
  history :: "Message list optional"

record ManualChartResponse =
  message :: "string optional"
  chart :: ChartIdea
  charts :: "ChartIdea list optional"

datatype chart_kind = Bar | Line | Pie

datatype ChartAggregation = AggCount | AggSum | AggMean

record ManualChartRequest =
  chartType :: chart_kind
  groupBy :: "string option"
  value' :: "string option"
  agg :: "ChartAggregation option"

section \<open>Slot assignment (components/ChartGrid.tsx)\<close>

record slot_spec =
  expectedType :: "string option"
  label :: string

definition preferredSlots :: "slot_spec list" where
  "preferredSlots =
     [\<lparr>expectedType = Some ''bar'', label = ''Bar chart''\<rparr>,
      \<lparr>expectedType = Some ''line'', label = ''Line chart''\<rparr>,
      \<lparr>expectedType = Some ''pie'', label = ''Pie chart''\<rparr>]"

text \<open>Truthiness of a string-valued field: missing, \<^verbatim>\<open>null\<close> and \<^verbatim>\<open>""\<close> are falsy.\<close>

fun truthy :: "string optional \<Rightarrow> bool" where
  "truthy (Defined s) = (s \<noteq> [])"
| "truthy v = False"

definition series_of :: "js_value \<Rightarrow> js_value list" where
  "series_of opt = (case get_prop opt ''series'' of JArr xs \<Rightarrow> xs | _ \<Rightarrow> [])"

definition normalizeType :: "(string \<Rightarrow> string) \<Rightarrow> ChartIdea option \<Rightarrow> string" where
  "normalizeType toLowerCase ch =
     (case ch of
        None \<Rightarrow> []
      | Some c \<Rightarrow>
          if truthy (chart_type c) then toLowerCase (nullish (chart_type c) [])
          else
            (case find (\<lambda>entry. is_string (get_prop entry ''type'')) (series_of (option c)) of
               None \<Rightarrow> []
             | Some entry \<Rightarrow>
                 (case get_prop entry ''type'' of JStr t \<Rightarrow> toLowerCase t | _ \<Rightarrow> [])))"

text \<open>
  The test of the claiming loop, \<^verbatim>\<open>normalizeType(c).includes(expectedType)\<close>: the
  resolved kind of \<open>c\<close> contains the expected kind.
\<close>

definition matches :: "(string \<Rightarrow> string) \<Rightarrow> string \<Rightarrow> ChartIdea \<Rightarrow> bool" where
  "matches toLowerCase expected c = str_includes (normalizeType toLowerCase (Some c)) expected"

text \<open>\<^verbatim>\<open>remaining.splice(i, 1)\<close>: the array without its element at index \<open>i\<close>.\<close>

definition splice1 :: "'a list \<Rightarrow> nat \<Rightarrow> 'a list" where
  "splice1 xs i = take i xs @ drop (Suc i) xs"

text \<open>
  The \<^verbatim>\<open>for (let i = remaining.length - 1; i >= 0; i -= 1)\<close> loop of \<^verbatim>\<open>claimChart\<close>;
  the result is the claimed chart (or \<^verbatim>\<open>null\<close>) and the array \<^verbatim>\<open>remaining\<close> afterwards.
\<close>

function claimLoop ::
  "(string \<Rightarrow> string) \<Rightarrow> string \<Rightarrow> ChartIdea list \<Rightarrow> int \<Rightarrow> ChartIdea option \<times> ChartIdea list" where
  "claimLoop toLowerCase expected remaining i =
     (if i \<ge> 0 then
        (if str_includes (normalizeType toLowerCase (Some (remaining ! nat i))) expected
         then (Some (remaining ! nat i), splice1 remaining (nat i))
         else claimLoop toLowerCase expected remaining (i - 1))
      else (None, remaining))"
  by pat_completeness auto
termination
  by (relation "measure (\<lambda>(toLowerCase, expected, remaining, i). nat (i + 1))") auto

declare claimLoop.simps [simp del]

definition claimChart ::
  "(string \<Rightarrow> string) \<Rightarrow> string option \<Rightarrow> ChartIdea list \<Rightarrow> ChartIdea option \<times> ChartIdea list" where
  "claimChart toLowerCase expected remaining =
     (case expected of
        None \<Rightarrow> (case remaining of [] \<Rightarrow> (None, []) | c # cs \<Rightarrow> (Some c, cs))
      | Some e \<Rightarrow>
          if e = [] then (case remaining of [] \<Rightarrow> (None, []) | c # cs \<Rightarrow> (Some c, cs))
          else claimLoop toLowerCase e remaining (int (length remaining) - 1))"

record slot =
  chart :: "ChartIdea option"
  slotType :: "string option"

text \<open>
  \<^verbatim>\<open>preferredSlots.map(...)\<close> with the shared array \<^verbatim>\<open>remaining\<close> threaded through the
  calls of \<^verbatim>\<open>claimChart\<close>; the second component is what is left unclaimed.
\<close>

fun fillSlots ::
  "(string \<Rightarrow> string) \<Rightarrow> slot_spec list \<Rightarrow> ChartIdea list \<Rightarrow> slot list \<times> ChartIdea list" where
  "fillSlots toLowerCase [] remaining = ([], remaining)"
| "fillSlots toLowerCase (s # ss) remaining =
     (let (c, remaining') = claimChart toLowerCase (expectedType s) remaining;
          (rest, final) = fillSlots toLowerCase ss remaining'
      in (\<lparr>chart = c, slotType = expectedType s\<rparr> # rest, final))"

definition ChartGrid :: "(string \<Rightarrow> string) \<Rightarrow> ChartIdea list \<Rightarrow> slot list \<times> ChartIdea list" where
  "ChartGrid toLowerCase cs = fillSlots toLowerCase preferredSlots cs"

text \<open>A chart that declares its kind and nothing else, for the scenarios below.\<close>

abbreviation kind_chart :: "string \<Rightarrow> string \<Rightarrow> ChartIdea" where
  "kind_chart t k \<equiv> \<lparr>title = t, description = [], chart_type = Defined k, option = JObj []\<rparr>"

section \<open>Dataset preview (components/DataPreview.tsx)\<close>

definition visiblePreview :: "PreviewRow list \<Rightarrow> PreviewRow list" where
  "visiblePreview rows = slice rows 0 8"

text \<open>
  What the component shows: the placeholder panel (\<open>None\<close>) when there is no column
  summary, otherwise the column cards and the table rows, one per entry of
  \<^verbatim>\<open>visiblePreview\<close>.
\<close>

definition DataPreview ::
  "ColumnSummary list \<Rightarrow> PreviewRow list \<Rightarrow> (ColumnSummary list \<times> PreviewRow list) option" where
  "DataPreview cols rows =
     (if length cols = 0 then None else Some (cols, visiblePreview rows))"

section \<open>Manual chart form (components/ChartControls.tsx)\<close>

definition requiresValue :: "ChartAggregation \<Rightarrow> bool" where
  "requiresValue a = (a \<noteq> AggCount)"

text \<open>
  \<^verbatim>\<open>ready\<close> over the component's hooks \<^verbatim>\<open>groupBy\<close>, \<^verbatim>\<open>value\<close>, \<^verbatim>\<open>agg\<close> and its
  property \<^verbatim>\<open>disabled\<close>; \<^verbatim>\<open>Boolean(s)\<close> of a string is \<open>s \<noteq> []\<close>.
\<close>

definition ready :: "string \<Rightarrow> string \<Rightarrow> ChartAggregation \<Rightarrow> bool \<Rightarrow> bool" where
  "ready g v a disabled = (g \<noteq> [] \<and> (\<not> requiresValue a \<or> v \<noteq> []) \<and> \<not> disabled)"

text \<open>\<^verbatim>\<open>handleSubmit\<close>: the payload handed to \<^verbatim>\<open>onBuild\<close>, or \<open>None\<close> for the early return.\<close>

definition handleSubmit ::
  "chart_kind \<Rightarrow> string \<Rightarrow> string \<Rightarrow> ChartAggregation \<Rightarrow> ManualChartRequest option" where
  "handleSubmit t g v a =
     (if g = [] then None
      else Some \<lparr>chartType = t, groupBy = Some g,
                  value' = (if requiresValue a then Some v else None), agg = Some a\<rparr>)"

text \<open>
  The build button carries \<^verbatim>\<open>disabled={!ready || loading}\<close> and \<^verbatim>\<open>onClick={handleSubmit}\<close>:
  a disabled button dispatches no click.
\<close>

definition buildDisabled :: "string \<Rightarrow> string \<Rightarrow> ChartAggregation \<Rightarrow> bool \<Rightarrow> bool \<Rightarrow> bool" where
  "buildDisabled g v a disabled loading = (\<not> ready g v a disabled \<or> loading)"

definition clickBuild ::
  "chart_kind \<Rightarrow> string \<Rightarrow> string \<Rightarrow> ChartAggregation \<Rightarrow> bool \<Rightarrow> bool \<Rightarrow> ManualChartRequest option" where
  "clickBuild t g v a disabled loading =
     (if buildDisabled g v a disabled loading then None else handleSubmit t g v a)"

section \<open>Session orchestrator (App.tsx)\<close>

record app_state =
  sessionId :: "string option"
  columns :: "ColumnSummary list"
  preview :: "PreviewRow list"
  charts :: "ChartIdea list"
  history :: "Message list"
  uploading :: bool
  chatLoading :: bool
  manualLoading :: bool
  status :: string
  error :: "string option"

text \<open>What a rejected request throws: an \<^verbatim>\<open>Error\<close> with its message, or anything else.\<close>

datatype thrown = ErrorObject string | OtherThrown

definition error_text :: "thrown \<Rightarrow> string \<Rightarrow> string" where
  "error_text err fallback = (case err of ErrorObject m \<Rightarrow> m | OtherThrown \<Rightarrow> fallback)"

text \<open>
  Each handler is an \<^verbatim>\<open>async\<close> function with one \<^verbatim>\<open>await\<close>. Its model has two parts:
  \<open>_begin\<close> runs up to the \<^verbatim>\<open>await\<close> and yields the state together with the arguments
  of the request of \<^verbatim>\<open>./api\<close> it issues (\<open>None\<close> when the handler returns before any
  request; \<open>'f\<close> is the browser's \<^verbatim>\<open>File\<close>), \<open>_settle\<close> runs the
  \<^verbatim>\<open>try\<close>/\<^verbatim>\<open>catch\<close>/\<^verbatim>\<open>finally\<close> continuation on the outcome of the request
  (\<open>Inl\<close> what was thrown, \<open>Inr\<close> the response). The handler itself is their
  composition, with no other event in between.
\<close>

definition initial_state :: app_state where
  "initial_state =
     \<lparr>sessionId = None, columns = [], preview = [], charts = [], history = [],
      uploading = False, chatLoading = False, manualLoading = False,
      status = ''Upload a dataset to begin.'', error = None\<rparr>"

text \<open>
  \<^verbatim>\<open>sessionId\<close> where it is truthy (neither \<^verbatim>\<open>null\<close> nor \<^verbatim>\<open>""\<close>): the test behind
  \<^verbatim>\<open>Boolean(sessionId)\<close> and \<^verbatim>\<open>!sessionId\<close>.
\<close>

definition active_session :: "app_state \<Rightarrow> string option" where
  "active_session st =
     (case sessionId st of None \<Rightarrow> None | Some sid \<Rightarrow> if sid = [] then None else Some sid)"

definition hasDataset :: "app_state \<Rightarrow> bool" where
  "hasDataset st = (active_session st \<noteq> None)"

subsection \<open>handleUpload\<close>

definition handleUpload_begin :: "app_state \<Rightarrow> 'f \<Rightarrow> app_state \<times> 'f option" where
  "handleUpload_begin st file =
     (st\<lparr>uploading := True, error := None, status := ''Uploading dataset...''\<rparr>, Some file)"

definition handleUpload_settle :: "app_state \<Rightarrow> thrown + UploadResponse \<Rightarrow> app_state" where
  "handleUpload_settle st outcome =
     (case outcome of
        Inr result \<Rightarrow>
          st\<lparr>sessionId := Some (UploadResponse.sessionId result),
             columns := UploadResponse.columns result,
             preview := UploadResponse.preview result,
             charts := [],
             history := [],
             status := ''Dataset loaded. Ask the agent for insights.'',
             uploading := False\<rparr>
      | Inl err \<Rightarrow>
          st\<lparr>error := Some (error_text err ''Failed to upload dataset.''),
             status := ''Upload failed. Please try another file.'',
             uploading := False\<rparr>)"

definition handleUpload :: "app_state \<Rightarrow> 'f \<Rightarrow> thrown + UploadResponse \<Rightarrow> app_state" where
  "handleUpload st file outcome =
     (case handleUpload_begin st file of
        (st1, None) \<Rightarrow> st1
      | (st1, Some call) \<Rightarrow> handleUpload_settle st1 outcome)"

subsection \<open>handleSendMessage\<close>

definition handleSendMessage_begin ::
  "app_state \<Rightarrow> string \<Rightarrow> app_state \<times> (string \<times> string) option" where
  "handleSendMessage_begin st msg =
     (case active_session st of
        None \<Rightarrow> (st\<lparr>error := Some ''Upload a dataset before chatting with the agent.''\<rparr>, None)
      | Some sid \<Rightarrow>
          (st\<lparr>chatLoading := True, error := None,
              status := ''Agent is exploring the dataset...'',
              history := history st @ [\<lparr>role = user, content = msg\<rparr>]\<rparr>,
           Some (sid, msg)))"

definition handleSendMessage_settle :: "app_state \<Rightarrow> thrown + ChatResponse \<Rightarrow> app_state" where
  "handleSendMessage_settle st outcome =
     (case outcome of
        Inr response \<Rightarrow>
          st\<lparr>charts := nullish (ChatResponse.charts response) [],
             history := nullish (ChatResponse.history response) [],
             status := ''Charts updated. Ask another question to refine.'',
             chatLoading := False\<rparr>
      | Inl err \<Rightarrow>
          st\<lparr>history := slice (history st) 0 (- 1),
             error := Some (error_text err ''Chat request failed.''),
             status := ''Agent error. Try sending your message again.'',
             chatLoading := False\<rparr>)"

definition handleSendMessage :: "app_state \<Rightarrow> string \<Rightarrow> thrown + ChatResponse \<Rightarrow> app_state" where
  "handleSendMessage st msg outcome =
     (case handleSendMessage_begin st msg of
        (st1, None) \<Rightarrow> st1
      | (st1, Some call) \<Rightarrow> handleSendMessage_settle st1 outcome)"

subsection \<open>handleBuildManualChart\<close>

definition handleBuildManualChart_begin ::
  "app_state \<Rightarrow> ManualChartRequest \<Rightarrow> app_state \<times> (string \<times> ManualChartRequest) option" where
  "handleBuildManualChart_begin st payload =
     (case active_session st of
        None \<Rightarrow> (st\<lparr>error := Some ''Upload a dataset before building charts.''\<rparr>, None)
      | Some sid \<Rightarrow>
          (st\<lparr>manualLoading := True, error := None,
              status := ''Building chart from your columns...''\<rparr>,
           Some (sid, payload)))"

definition handleBuildManualChart_settle ::
  "app_state \<Rightarrow> thrown + ManualChartResponse \<Rightarrow> app_state" where
  "handleBuildManualChart_settle st outcome =
     (case outcome of
        Inr response \<Rightarrow>
          st\<lparr>charts := nullish (ManualChartResponse.charts response) [],
             status := nullish (message response) ''Chart updated.'',
             manualLoading := False\<rparr>
      | Inl err \<Rightarrow>
          st\<lparr>error := Some (error_text err ''Failed to build manual chart.''),
             status := ''Manual chart failed. Adjust selections and retry.'',
             manualLoading := False\<rparr>)"

definition handleBuildManualChart ::
  "app_state \<Rightarrow> ManualChartRequest \<Rightarrow> thrown + ManualChartResponse \<Rightarrow> app_state" where
  "handleBuildManualChart st payload outcome =
     (case handleBuildManualChart_begin st payload of
        (st1, None) \<Rightarrow> st1
      | (st1, Some call) \<Rightarrow> handleBuildManualChart_settle st1 outcome)"

section \<open>Helper lemmas\<close>

lemma str_includes_iff: "str_includes s t \<longleftrightarrow> (\<exists>ps ss. s = ps @ t @ ss)"
proof (induction s)
  case Nil
  then show ?case by auto
next
  case (Cons c s)
  show ?case
  proof
    assume "str_includes (c # s) t"
    then consider "prefix t (c # s)" | "str_includes s t" by auto
    then show "\<exists>ps ss. c # s = ps @ t @ ss"
    proof cases
      case 1
      then obtain ss where "c # s = t @ ss" by (auto simp: prefix_def)
      then have "c # s = [] @ t @ ss" by simp
      then show ?thesis by blast
    next
      case 2
      with Cons.IH obtain ps ss where "s = ps @ t @ ss" by blast
      then have "c # s = (c # ps) @ t @ ss" by simp
      then show ?thesis by blast
    qed
  next
    assume "\<exists>ps ss. c # s = ps @ t @ ss"
    then obtain ps ss where eq: "c # s = ps @ t @ ss" by blast
    show "str_includes (c # s) t"
    proof (cases ps)
      case Nil
      with eq have "prefix t (c # s)" by (simp add: prefix_def)
      then show ?thesis by simp
    next
      case (Cons p ps')
      with eq have "s = ps' @ t @ ss" by simp
      with Cons.IH have "str_includes s t" by blast
      then show ?thesis by simp
    qed
  qed
qed

text \<open>The loop started below index \<open>k\<close> finds nothing when no entry below \<open>k\<close> matches.\<close>

lemma claimLoop_none:
  "k \<le> length remaining \<Longrightarrow> (\<forall>j<k. \<not> matches toLowerCase e (remaining ! j)) \<Longrightarrow>
   claimLoop toLowerCase e remaining (int k - 1) = (None, remaining)"
proof (induction k)
  case 0
  then show ?case by (simp add: claimLoop.simps)
next
  case (Suc k)
  have "\<not> matches toLowerCase e (remaining ! k)" using Suc.prems by simp
  moreover have "claimLoop toLowerCase e remaining (int k - 1) = (None, remaining)"
    using Suc by simp
  ultimately show ?case
    by (subst claimLoop.simps) (simp add: matches_def)
qed

text \<open>It stops at the greatest matching index below \<open>k\<close>.\<close>

lemma claimLoop_hit:
  "j < k \<Longrightarrow> matches toLowerCase e (remaining ! j) \<Longrightarrow>
   (\<forall>j'. j < j' \<and> j' < k \<longrightarrow> \<not> matches toLowerCase e (remaining ! j')) \<Longrightarrow>
   claimLoop toLowerCase e remaining (int k - 1) = (Some (remaining ! j), splice1 remaining j)"
proof (induction k)
  case 0
  then show ?case by simp
next
  case (Suc k)
  show ?case
  proof (cases "j = k")
    case True
    with Suc.prems show ?thesis
      by (subst claimLoop.simps) (simp add: matches_def)
  next
    case False
    with Suc.prems have jk: "j < k" by simp
    have nk: "\<not> matches toLowerCase e (remaining ! k)" using Suc.prems jk by simp
    have "claimLoop toLowerCase e remaining (int k - 1) =
        (Some (remaining ! j), splice1 remaining j)"
      using Suc.IH [OF jk] Suc.prems by simp
    with nk show ?thesis
      by (subst claimLoop.simps) (simp add: matches_def)
  qed
qed

lemma claimChart_none:
  assumes "e \<noteq> []" and "\<forall>y\<in>set remaining. \<not> matches toLowerCase e y"
  shows "claimChart toLowerCase (Some e) remaining = (None, remaining)"
proof -
  have "\<forall>j<length remaining. \<not> matches toLowerCase e (remaining ! j)"
    using assms(2) by simp
  then have "claimLoop toLowerCase e remaining (int (length remaining) - 1) = (None, remaining)"
    by (intro claimLoop_none) simp_all
  with assms(1) show ?thesis by (simp add: claimChart_def)
qed

lemma claimChart_last:
  assumes "e \<noteq> []" and "matches toLowerCase e x" and "\<forall>y\<in>set post. \<not> matches toLowerCase e y"
  shows "claimChart toLowerCase (Some e) (pre @ x # post) = (Some x, pre @ post)"
proof -
  let ?r = "pre @ x # post"
  have j: "length pre < length ?r" by simp
  have at: "?r ! length pre = x" by simp
  have later: "\<forall>j'. length pre < j' \<and> j' < length ?r \<longrightarrow> \<not> matches toLowerCase e (?r ! j')"
  proof (intro allI impI)
    fix j' assume h: "length pre < j' \<and> j' < length ?r"
    then have "?r ! j' = post ! (j' - Suc (length pre))"
      by (simp add: nth_append nth_Cons')
    moreover have "j' - Suc (length pre) < length post" using h by auto
    ultimately show "\<not> matches toLowerCase e (?r ! j')" using assms(3) by simp
  qed
  have "claimLoop toLowerCase e ?r (int (length ?r) - 1) =
      (Some (?r ! length pre), splice1 ?r (length pre))"
    using claimLoop_hit [OF j _ later] at assms(2) by simp
  moreover have "splice1 ?r (length pre) = pre @ post" by (simp add: splice1_def)
  ultimately show ?thesis using assms(1) at by (simp add: claimChart_def)
qed

lemma ChartGrid_unfold:
  "ChartGrid toLowerCase cs =
     (case claimChart toLowerCase (Some ''bar'') cs of (b, r1) \<Rightarrow>
      case claimChart toLowerCase (Some ''line'') r1 of (l, r2) \<Rightarrow>
      case claimChart toLowerCase (Some ''pie'') r2 of (p, r3) \<Rightarrow>
        ([\<lparr>chart = b, slotType = Some ''bar''\<rparr>,
          \<lparr>chart = l, slotType = Some ''line''\<rparr>,
          \<lparr>chart = p, slotType = Some ''pie''\<rparr>], r3))"
  by (simp add: ChartGrid_def preferredSlots_def split: prod.splits)

text \<open>A chart with a non-empty declared kind resolves to that kind, lower-cased.\<close>

lemma normalizeType_kind_chart:
  "k \<noteq> [] \<Longrightarrow> normalizeType toLowerCase (Some (kind_chart t k)) = toLowerCase k"
  by (simp add: normalizeType_def)

text \<open>
  The scenario of the spec, for every lower-casing function that leaves the words
  \<open>line\<close> and \<open>bar\<close> as they are.
\<close>

lemma ChartGrid_scenario:
  assumes line: "toLowerCase ''line'' = ''line''" and bar: "toLowerCase ''bar'' = ''bar''"
  shows "ChartGrid toLowerCase
           [kind_chart ''first'' ''line'', kind_chart ''second'' ''bar'', kind_chart ''third'' ''bar''] =
     ([\<lparr>chart = Some (kind_chart ''third'' ''bar''), slotType = Some ''bar''\<rparr>,
       \<lparr>chart = Some (kind_chart ''first'' ''line''), slotType = Some ''line''\<rparr>,
       \<lparr>chart = None, slotType = Some ''pie''\<rparr>],
      [kind_chart ''second'' ''bar''])"
proof -
  let ?f = "kind_chart ''first'' ''line''"
  let ?s = "kind_chart ''second'' ''bar''"
  let ?t = "kind_chart ''third'' ''bar''"
  have mb: "matches toLowerCase ''bar'' ?t"
    by (simp add: matches_def normalizeType_kind_chart bar)
  have ml: "matches toLowerCase ''line'' ?f"
    by (simp add: matches_def normalizeType_kind_chart line)
  have nl: "\<not> matches toLowerCase ''line'' ?s"
    by (simp add: matches_def normalizeType_kind_chart bar)
  have np: "\<not> matches toLowerCase ''pie'' ?s"
    by (simp add: matches_def normalizeType_kind_chart bar)
  have "claimChart toLowerCase (Some ''bar'') ([?f, ?s] @ ?t # []) = (Some ?t, [?f, ?s] @ [])"
    using mb by (intro claimChart_last) simp_all
  then have b: "claimChart toLowerCase (Some ''bar'') [?f, ?s, ?t] = (Some ?t, [?f, ?s])"
    by simp
  have "claimChart toLowerCase (Some ''line'') ([] @ ?f # [?s]) = (Some ?f, [] @ [?s])"
    using ml nl by (intro claimChart_last) simp_all
  then have l: "claimChart toLowerCase (Some ''line'') [?f, ?s] = (Some ?f, [?s])"
    by simp
  have p: "claimChart toLowerCase (Some ''pie'') [?s] = (None, [?s])"
    using np by (intro claimChart_none) simp_all
  show ?thesis
    by (simp add: ChartGrid_unfold b l p)
qed

lemma find_first_hit:
  "(\<forall>x\<in>set pre. \<not> P x) \<Longrightarrow> P e \<Longrightarrow> find P (pre @ e # post) = Some e"
  by (induction pre) simp_all

lemma find_no_hit: "(\<forall>x\<in>set xs. \<not> P x) \<Longrightarrow> find P xs = None"
  by (induction xs) simp_all

lemma falsy_cases: "\<not> truthy v \<longleftrightarrow> v = Undefined \<or> v = Null \<or> v = Defined []"
  by (cases v) simp_all

lemma slice_drop_last: "slice (xs @ [x]) 0 (- 1) = xs"
  by (simp add: slice_def)

lemma slice_prefix: "slice xs 0 8 = take 8 xs"
  by (simp add: slice_def min_def)

section \<open>Claims\<close>

text \<open>
  C1. Slot assignment. \<open>str_includes s t\<close> is the substring test. For a non-empty expected
  kind, \<open>claimChart\<close> claims the last entry of the working list whose resolved kind
  contains the expected kind and removes it from the list, and claims nothing (list
  unchanged) when no entry matches. \<open>ChartGrid\<close> fills the slots bar, line, pie in this
  order, each from what the previous claims left; what is left at the end is discarded.
  For the charts line, bar, bar the bar slot gets the third chart, the line slot the
  first, the pie slot is empty and the second chart is discarded. All of this holds for
  every lower-casing function \<open>toLowerCase\<close>; the scenario needs of it only that it leaves
  the words \<open>line\<close> and \<open>bar\<close> as they are.
\<close>

theorem slot_assignment:
  "(str_includes s t \<longleftrightarrow> (\<exists>ps ss. s = ps @ t @ ss))
   \<and> (e \<noteq> [] \<and> (\<forall>y\<in>set remaining. \<not> matches toLowerCase e y) \<longrightarrow>
        claimChart toLowerCase (Some e) remaining = (None, remaining))
   \<and> (e \<noteq> [] \<and> matches toLowerCase e x \<and> (\<forall>y\<in>set post. \<not> matches toLowerCase e y) \<longrightarrow>
        claimChart toLowerCase (Some e) (pre @ x # post) = (Some x, pre @ post))
   \<and> ChartGrid toLowerCase cs =
        (case claimChart toLowerCase (Some ''bar'') cs of (b, r1) \<Rightarrow>
         case claimChart toLowerCase (Some ''line'') r1 of (l, r2) \<Rightarrow>
         case claimChart toLowerCase (Some ''pie'') r2 of (p, r3) \<Rightarrow>
           ([\<lparr>chart = b, slotType = Some ''bar''\<rparr>,
             \<lparr>chart = l, slotType = Some ''line''\<rparr>,
             \<lparr>chart = p, slotType = Some ''pie''\<rparr>], r3))
   \<and> (toLowerCase ''line'' = ''line'' \<and> toLowerCase ''bar'' = ''bar'' \<longrightarrow>
        ChartGrid toLowerCase
          [kind_chart ''first'' ''line'', kind_chart ''second'' ''bar'',
           kind_chart ''third'' ''bar''] =
        ([\<lparr>chart = Some (kind_chart ''third'' ''bar''), slotType = Some ''bar''\<rparr>,
          \<lparr>chart = Some (kind_chart ''first'' ''line''), slotType = Some ''line''\<rparr>,
          \<lparr>chart = None, slotType = Some ''pie''\<rparr>],
         [kind_chart ''second'' ''bar'']))"
proof (intro conjI impI)
  show "str_includes s t \<longleftrightarrow> (\<exists>ps ss. s = ps @ t @ ss)"
    by (rule str_includes_iff)
next
  assume "e \<noteq> [] \<and> (\<forall>y\<in>set remaining. \<not> matches toLowerCase e y)"
  then show "claimChart toLowerCase (Some e) remaining = (None, remaining)"
    by (intro claimChart_none) simp_all
next
  assume "e \<noteq> [] \<and> matches toLowerCase e x \<and> (\<forall>y\<in>set post. \<not> matches toLowerCase e y)"
  then show "claimChart toLowerCase (Some e) (pre @ x # post) = (Some x, pre @ post)"
    by (intro claimChart_last) simp_all
next
  show "ChartGrid toLowerCase cs =
        (case claimChart toLowerCase (Some ''bar'') cs of (b, r1) \<Rightarrow>
         case claimChart toLowerCase (Some ''line'') r1 of (l, r2) \<Rightarrow>
         case claimChart toLowerCase (Some ''pie'') r2 of (p, r3) \<Rightarrow>
           ([\<lparr>chart = b, slotType = Some ''bar''\<rparr>,
             \<lparr>chart = l, slotType = Some ''line''\<rparr>,
             \<lparr>chart = p, slotType = Some ''pie''\<rparr>], r3))"
    by (rule ChartGrid_unfold)
next
  assume "toLowerCase ''line'' = ''line'' \<and> toLowerCase ''bar'' = ''bar''"
  then show "ChartGrid toLowerCase
          [kind_chart ''first'' ''line'', kind_chart ''second'' ''bar'',
           kind_chart ''third'' ''bar''] =
        ([\<lparr>chart = Some (kind_chart ''third'' ''bar''), slotType = Some ''bar''\<rparr>,
          \<lparr>chart = Some (kind_chart ''first'' ''line''), slotType = Some ''line''\<rparr>,
          \<lparr>chart = None, slotType = Some ''pie''\<rparr>],
         [kind_chart ''second'' ''bar''])"
    by (intro ChartGrid_scenario) simp_all
qed

text \<open>
  The scenario evaluated with the values of the built-in on ASCII strings, and its three
  claims: the bar slot takes the third chart although the second matches too, the line
  slot then takes the first chart past the second, and the pie slot finds nothing in
  what is left.
\<close>

theorem slot_assignment_witness:
  "ascii_toLowerCase ''line'' = ''line'' \<and> ascii_toLowerCase ''bar'' = ''bar''
   \<and> ChartGrid ascii_toLowerCase
        [kind_chart ''first'' ''line'', kind_chart ''second'' ''bar'',
         kind_chart ''third'' ''bar''] =
      ([\<lparr>chart = Some (kind_chart ''third'' ''bar''), slotType = Some ''bar''\<rparr>,
        \<lparr>chart = Some (kind_chart ''first'' ''line''), slotType = Some ''line''\<rparr>,
        \<lparr>chart = None, slotType = Some ''pie''\<rparr>],
       [kind_chart ''second'' ''bar''])
   \<and> ''bar'' \<noteq> [] \<and> matches ascii_toLowerCase ''bar'' (kind_chart ''third'' ''bar'')
   \<and> matches ascii_toLowerCase ''bar'' (kind_chart ''second'' ''bar'')
   \<and> claimChart ascii_toLowerCase (Some ''bar'')
        ([kind_chart ''first'' ''line'', kind_chart ''second'' ''bar'']
           @ kind_chart ''third'' ''bar'' # []) =
      (Some (kind_chart ''third'' ''bar''),
       [kind_chart ''first'' ''line'', kind_chart ''second'' ''bar''] @ [])
   \<and> matches ascii_toLowerCase ''line'' (kind_chart ''first'' ''line'')
   \<and> \<not> matches ascii_toLowerCase ''line'' (kind_chart ''second'' ''bar'')
   \<and> claimChart ascii_toLowerCase (Some ''line'')
        ([] @ kind_chart ''first'' ''line'' # [kind_chart ''second'' ''bar'']) =
      (Some (kind_chart ''first'' ''line''), [] @ [kind_chart ''second'' ''bar''])
   \<and> \<not> matches ascii_toLowerCase ''pie'' (kind_chart ''second'' ''bar'')
   \<and> claimChart ascii_toLowerCase (Some ''pie'') [kind_chart ''second'' ''bar''] =
      (None, [kind_chart ''second'' ''bar''])"
proof -
  have al: "ascii_toLowerCase ''line'' = ''line''" by code_simp
  have ab: "ascii_toLowerCase ''bar'' = ''bar''" by code_simp
  have m3: "matches ascii_toLowerCase ''bar'' (kind_chart ''third'' ''bar'')" by code_simp
  have m2: "matches ascii_toLowerCase ''bar'' (kind_chart ''second'' ''bar'')" by code_simp
  have m1: "matches ascii_toLowerCase ''line'' (kind_chart ''first'' ''line'')" by code_simp
  have n2: "\<not> matches ascii_toLowerCase ''line'' (kind_chart ''second'' ''bar'')" by code_simp
  have p2: "\<not> matches ascii_toLowerCase ''pie'' (kind_chart ''second'' ''bar'')" by code_simp
  have grid: "ChartGrid ascii_toLowerCase
        [kind_chart ''first'' ''line'', kind_chart ''second'' ''bar'',
         kind_chart ''third'' ''bar''] =
      ([\<lparr>chart = Some (kind_chart ''third'' ''bar''), slotType = Some ''bar''\<rparr>,
        \<lparr>chart = Some (kind_chart ''first'' ''line''), slotType = Some ''line''\<rparr>,
        \<lparr>chart = None, slotType = Some ''pie''\<rparr>],
       [kind_chart ''second'' ''bar''])"
    using slot_assignment [where toLowerCase = ascii_toLowerCase] al ab
    by blast
  have bar: "claimChart ascii_toLowerCase (Some ''bar'')
        ([kind_chart ''first'' ''line'', kind_chart ''second'' ''bar'']
           @ kind_chart ''third'' ''bar'' # []) =
      (Some (kind_chart ''third'' ''bar''),
       [kind_chart ''first'' ''line'', kind_chart ''second'' ''bar''] @ [])"
    using slot_assignment [where toLowerCase = ascii_toLowerCase and e = "''bar''"
        and x = "kind_chart ''third'' ''bar''" and post = "[]"
        and pre = "[kind_chart ''first'' ''line'', kind_chart ''second'' ''bar'']"] m3
    by simp
  have line: "claimChart ascii_toLowerCase (Some ''line'')
        ([] @ kind_chart ''first'' ''line'' # [kind_chart ''second'' ''bar'']) =
      (Some (kind_chart ''first'' ''line''), [] @ [kind_chart ''second'' ''bar''])"
    using slot_assignment [where toLowerCase = ascii_toLowerCase and e = "''line''"
        and x = "kind_chart ''first'' ''line''" and post = "[kind_chart ''second'' ''bar'']"
        and pre = "[]"] m1 n2
    by simp
  have pie: "claimChart ascii_toLowerCase (Some ''pie'') [kind_chart ''second'' ''bar''] =
      (None, [kind_chart ''second'' ''bar''])"
    using slot_assignment [where toLowerCase = ascii_toLowerCase and e = "''pie''"
        and remaining = "[kind_chart ''second'' ''bar'']"] p2
    by simp
  from al ab grid m3 m2 m1 n2 p2 bar line pie show ?thesis by simp
qed

text \<open>
  C2, as amended. Kind resolution returns the lower-cased \<^verbatim>\<open>chart_type\<close> when that field
  is present and not the empty string; when it is missing, \<^verbatim>\<open>null\<close> or empty, the
  lower-cased \<^verbatim>\<open>type\<close> of the first entry of the configuration's \<^verbatim>\<open>series\<close> array that
  carries a string \<^verbatim>\<open>type\<close>; and the empty string when there is no such entry (or
  \<^verbatim>\<open>series\<close> is not an array). Lower-cased means: as \<open>toLowerCase\<close> returns it, whatever
  function that is, so in particular for the Unicode-aware built-in.
\<close>

theorem normalizeType_resolution:
  "(chart_type c = Defined s \<and> s \<noteq> [] \<longrightarrow>
      normalizeType toLowerCase (Some c) = toLowerCase s)
   \<and> ((chart_type c = Undefined \<or> chart_type c = Null \<or> chart_type c = Defined [])
        \<and> get_prop (option c) ''series'' = JArr (pre @ e # post)
        \<and> (\<forall>x\<in>set pre. \<not> is_string (get_prop x ''type''))
        \<and> get_prop e ''type'' = JStr t
      \<longrightarrow> normalizeType toLowerCase (Some c) = toLowerCase t)
   \<and> ((chart_type c = Undefined \<or> chart_type c = Null \<or> chart_type c = Defined [])
        \<and> (\<forall>xs. get_prop (option c) ''series'' = JArr xs \<longrightarrow>
               (\<forall>x\<in>set xs. \<not> is_string (get_prop x ''type'')))
      \<longrightarrow> normalizeType toLowerCase (Some c) = [])"
proof (intro conjI impI)
  assume "chart_type c = Defined s \<and> s \<noteq> []"
  then show "normalizeType toLowerCase (Some c) = toLowerCase s"
    by (simp add: normalizeType_def)
next
  assume h: "(chart_type c = Undefined \<or> chart_type c = Null \<or> chart_type c = Defined [])
        \<and> get_prop (option c) ''series'' = JArr (pre @ e # post)
        \<and> (\<forall>x\<in>set pre. \<not> is_string (get_prop x ''type''))
        \<and> get_prop e ''type'' = JStr t"
  then have f: "\<not> truthy (chart_type c)" by (simp add: falsy_cases)
  have s: "series_of (option c) = pre @ e # post" using h by (simp add: series_of_def)
  have "find (\<lambda>entry. is_string (get_prop entry ''type'')) (pre @ e # post) = Some e"
    using h by (intro find_first_hit) simp_all
  with f s h show "normalizeType toLowerCase (Some c) = toLowerCase t"
    by (simp add: normalizeType_def)
next
  assume h: "(chart_type c = Undefined \<or> chart_type c = Null \<or> chart_type c = Defined [])
        \<and> (\<forall>xs. get_prop (option c) ''series'' = JArr xs \<longrightarrow>
               (\<forall>x\<in>set xs. \<not> is_string (get_prop x ''type'')))"
  then have f: "\<not> truthy (chart_type c)" by (simp add: falsy_cases)
  have "\<forall>x\<in>set (series_of (option c)). \<not> is_string (get_prop x ''type'')"
    using h by (cases "get_prop (option c) ''series''") (simp_all add: series_of_def)
  then have "find (\<lambda>entry. is_string (get_prop entry ''type'')) (series_of (option c)) = None"
    by (rule find_no_hit)
  with f show "normalizeType toLowerCase (Some c) = []"
    by (simp add: normalizeType_def)
qed

text \<open>
  One chart for each of the three cases, with ASCII kinds, where the built-in has the
  values of \<open>ascii_toLowerCase\<close>.
\<close>

theorem normalizeType_resolution_witness:
  "is_ascii ''Bar'' \<and> is_ascii ''LINE''
   \<and> normalizeType ascii_toLowerCase
       (Some \<lparr>title = ''Sales'', description = [], chart_type = Defined ''Bar'',
              option = JObj []\<rparr>) = ''bar''
   \<and> normalizeType ascii_toLowerCase
       (Some \<lparr>title = ''Trend'', description = [], chart_type = Undefined,
              option = JObj [(''series'', JArr [JNull, JObj [(''type'', JStr ''LINE'')]])]\<rparr>)
     = ''line''
   \<and> normalizeType ascii_toLowerCase
       (Some \<lparr>title = ''Blank'', description = [], chart_type = Null,
              option = JObj [(''series'', JStr ''bar'')]\<rparr>) = []"
proof -
  let ?a = "\<lparr>title = ''Sales'', description = [], chart_type = Defined ''Bar'', option = JObj []\<rparr>"
  let ?b = "\<lparr>title = ''Trend'', description = [], chart_type = Undefined,
       option = JObj [(''series'', JArr [JNull, JObj [(''type'', JStr ''LINE'')]])]\<rparr>"
  let ?c = "\<lparr>title = ''Blank'', description = [], chart_type = Null,
       option = JObj [(''series'', JStr ''bar'')]\<rparr>"
  have 1: "normalizeType ascii_toLowerCase (Some ?a) = ascii_toLowerCase ''Bar''"
    using normalizeType_resolution [where c = ?a and s = "''Bar''"
        and toLowerCase = ascii_toLowerCase]
    by simp
  have 2: "normalizeType ascii_toLowerCase (Some ?b) = ascii_toLowerCase ''LINE''"
    using normalizeType_resolution [where c = ?b and pre = "[JNull]"
        and e = "JObj [(''type'', JStr ''LINE'')]" and post = "[]" and t = "''LINE''"
        and toLowerCase = ascii_toLowerCase]
    by simp
  have 3: "normalizeType ascii_toLowerCase (Some ?c) = []"
    using normalizeType_resolution [where c = ?c and toLowerCase = ascii_toLowerCase]
    by simp
  have l1: "ascii_toLowerCase ''Bar'' = ''bar''" by code_simp
  have l2: "ascii_toLowerCase ''LINE'' = ''line''" by code_simp
  have a1: "is_ascii ''Bar''" by code_simp
  have a2: "is_ascii ''LINE''" by code_simp
  from 1 2 3 l1 l2 a1 a2 show ?thesis by simp
qed

text \<open>
  C2 as stated fails for a chart whose \<^verbatim>\<open>chart_type\<close> is present but empty: the field is
  falsy, so the kind is taken from the series and is not the lower-cased \<^verbatim>\<open>chart_type\<close>.
  The strings involved are the empty string and \<open>bar\<close>, which lower-casing leaves as
  they are.
\<close>

theorem normalizeType_present_counterexample:
  "chart_type \<lparr>title = ''Sales'', description = [], chart_type = Defined [],
       option = JObj [(''series'', JArr [JObj [(''type'', JStr ''bar'')]])]\<rparr> = Defined []
   \<and> normalizeType ascii_toLowerCase
       (Some \<lparr>title = ''Sales'', description = [], chart_type = Defined [],
              option = JObj [(''series'', JArr [JObj [(''type'', JStr ''bar'')]])]\<rparr>) = ''bar''
   \<and> ascii_toLowerCase [] = []
   \<and> ascii_toLowerCase ''bar'' = ''bar''"
proof -
  have b: "ascii_toLowerCase ''bar'' = ''bar''" by code_simp
  have e: "ascii_toLowerCase [] = []" by (simp add: ascii_toLowerCase_def)
  from b e show ?thesis
    by (simp add: normalizeType_def series_of_def)
qed

text \<open>
  C3. With an active session, \<^verbatim>\<open>handleSendMessage\<close> first appends the user entry and
  issues the request; when the request fails the last entry is removed again, so the
  transcript equals the one before the call, the chart collection is untouched, and
  only the error, the status and the busy flag are set.
\<close>

theorem chat_failure_rollback:
  "hasDataset st \<Longrightarrow>
     history (fst (handleSendMessage_begin st msg)) = history st @ [\<lparr>role = user, content = msg\<rparr>]
   \<and> snd (handleSendMessage_begin st msg) \<noteq> None
   \<and> history (handleSendMessage st msg (Inl err)) = history st
   \<and> charts (handleSendMessage st msg (Inl err)) = charts st
   \<and> handleSendMessage st msg (Inl err) =
       st\<lparr>error := Some (error_text err ''Chat request failed.''),
          status := ''Agent error. Try sending your message again.'',
          chatLoading := False\<rparr>"
  by (auto simp: hasDataset_def handleSendMessage_def handleSendMessage_begin_def
      handleSendMessage_settle_def slice_drop_last)

theorem chat_failure_rollback_witness:
  "hasDataset (initial_state\<lparr>sessionId := Some ''s1'',
       history := [\<lparr>role = user, content = ''hi''\<rparr>, \<lparr>role = assistant, content = ''hello''\<rparr>]\<rparr>)
   \<and> history (handleSendMessage (initial_state\<lparr>sessionId := Some ''s1'',
       history := [\<lparr>role = user, content = ''hi''\<rparr>, \<lparr>role = assistant, content = ''hello''\<rparr>]\<rparr>)
         ''plot sales'' (Inl (ErrorObject ''500'')))
     = [\<lparr>role = user, content = ''hi''\<rparr>, \<lparr>role = assistant, content = ''hello''\<rparr>]"
proof -
  let ?st = "initial_state\<lparr>sessionId := Some ''s1'',
       history := [\<lparr>role = user, content = ''hi''\<rparr>, \<lparr>role = assistant, content = ''hello''\<rparr>]\<rparr>"
  have h: "hasDataset ?st"
    by (simp add: hasDataset_def active_session_def initial_state_def)
  from chat_failure_rollback [OF h, of "''plot sales''" "ErrorObject ''500''"]
  have "history (handleSendMessage ?st ''plot sales'' (Inl (ErrorObject ''500''))) = history ?st"
    by blast
  with h show ?thesis by simp
qed

text \<open>
  C4. With an active session and a successful chat request whose response carries its
  chart collection and transcript, the state's chart collection and transcript are
  exactly those of the response, whatever they were before.
\<close>

theorem chat_success_replaces:
  "hasDataset st \<Longrightarrow> ChatResponse.charts r = Defined cs \<Longrightarrow> ChatResponse.history r = Defined hs \<Longrightarrow>
     charts (handleSendMessage st msg (Inr r)) = cs
   \<and> history (handleSendMessage st msg (Inr r)) = hs"
  by (auto simp: hasDataset_def handleSendMessage_def handleSendMessage_begin_def
      handleSendMessage_settle_def)

theorem chat_success_replaces_witness:
  "hasDataset (initial_state\<lparr>sessionId := Some ''s1'', charts := [kind_chart ''old'' ''pie''],
       history := [\<lparr>role = user, content = ''hi''\<rparr>]\<rparr>)
   \<and> charts (handleSendMessage (initial_state\<lparr>sessionId := Some ''s1'',
         charts := [kind_chart ''old'' ''pie''], history := [\<lparr>role = user, content = ''hi''\<rparr>]\<rparr>)
       ''plot sales''
       (Inr \<lparr>reply = ''done'', ChatResponse.charts = Defined [kind_chart ''new'' ''bar''],
             ChatResponse.history = Defined [\<lparr>role = assistant, content = ''summary''\<rparr>]\<rparr>))
     = [kind_chart ''new'' ''bar'']
   \<and> history (handleSendMessage (initial_state\<lparr>sessionId := Some ''s1'',
         charts := [kind_chart ''old'' ''pie''], history := [\<lparr>role = user, content = ''hi''\<rparr>]\<rparr>)
       ''plot sales''
       (Inr \<lparr>reply = ''done'', ChatResponse.charts = Defined [kind_chart ''new'' ''bar''],
             ChatResponse.history = Defined [\<lparr>role = assistant, content = ''summary''\<rparr>]\<rparr>))
     = [\<lparr>role = assistant, content = ''summary''\<rparr>]"
proof -
  let ?st = "initial_state\<lparr>sessionId := Some ''s1'', charts := [kind_chart ''old'' ''pie''],
       history := [\<lparr>role = user, content = ''hi''\<rparr>]\<rparr>"
  let ?r = "\<lparr>reply = ''done'', ChatResponse.charts = Defined [kind_chart ''new'' ''bar''],
             ChatResponse.history = Defined [\<lparr>role = assistant, content = ''summary''\<rparr>]\<rparr>"
  have h: "hasDataset ?st"
    by (simp add: hasDataset_def active_session_def initial_state_def)
  have c: "ChatResponse.charts ?r = Defined [kind_chart ''new'' ''bar'']" by simp
  have t: "ChatResponse.history ?r = Defined [\<lparr>role = assistant, content = ''summary''\<rparr>]" by simp
  from chat_success_replaces [OF h c t, of "''plot sales''"] h show ?thesis by simp
qed

text \<open>
  C5. Whatever the state before, a successful upload installs the session identifier,
  column summaries and preview of the response and leaves the chart collection and
  the transcript empty.
\<close>

theorem upload_success_resets:
  "sessionId (handleUpload st file (Inr result)) = Some (UploadResponse.sessionId result)
   \<and> columns (handleUpload st file (Inr result)) = UploadResponse.columns result
   \<and> preview (handleUpload st file (Inr result)) = UploadResponse.preview result
   \<and> charts (handleUpload st file (Inr result)) = []
   \<and> history (handleUpload st file (Inr result)) = []"
  by (simp add: handleUpload_def handleUpload_begin_def handleUpload_settle_def)

text \<open>
  C6. Whatever the state before, a failed upload leaves the session identifier, column
  summaries, preview, chart collection and transcript as they were: the resulting
  state differs from the one before only in the error, the status and the busy flag.
\<close>

theorem upload_failure_keeps_session:
  "sessionId (handleUpload st file (Inl err)) = sessionId st
   \<and> columns (handleUpload st file (Inl err)) = columns st
   \<and> preview (handleUpload st file (Inl err)) = preview st
   \<and> charts (handleUpload st file (Inl err)) = charts st
   \<and> history (handleUpload st file (Inl err)) = history st
   \<and> handleUpload st file (Inl err) =
       st\<lparr>error := Some (error_text err ''Failed to upload dataset.''),
          status := ''Upload failed. Please try another file.'',
          uploading := False\<rparr>"
  by (simp add: handleUpload_def handleUpload_begin_def handleUpload_settle_def)

text \<open>
  C7, as amended. \<^verbatim>\<open>handleBuildManualChart\<close> checks only that a session is active: with
  one it issues the request for every payload, with none it sets the error, issues no
  request and changes nothing else. The value column is required by the form of
  \<^verbatim>\<open>ChartControls\<close>: when the aggregation is not \<^verbatim>\<open>count\<close> and no value column is
  selected, \<^verbatim>\<open>ready\<close> is false and the disabled build button submits nothing; with
  aggregation \<^verbatim>\<open>count\<close>, a grouping column selected and the form enabled, \<^verbatim>\<open>ready\<close>
  holds whatever the value selection, and the payload submitted has no value column.
\<close>

theorem manual_chart_validation:
  "(active_session st = Some sid \<longrightarrow>
      snd (handleBuildManualChart_begin st payload) = Some (sid, payload))
   \<and> (active_session st = None \<longrightarrow>
      handleBuildManualChart_begin st payload =
        (st\<lparr>error := Some ''Upload a dataset before building charts.''\<rparr>, None))
   \<and> (a \<noteq> AggCount \<longrightarrow>
      \<not> ready g [] a disabled \<and> clickBuild t g [] a disabled loading = None)
   \<and> (g \<noteq> [] \<and> \<not> disabled \<longrightarrow>
      ready g v AggCount disabled
      \<and> (\<not> loading \<longrightarrow> clickBuild t g v AggCount disabled loading =
            Some \<lparr>chartType = t, groupBy = Some g, value' = None, agg = Some AggCount\<rparr>))"
  by (simp add: handleBuildManualChart_begin_def ready_def requiresValue_def clickBuild_def
      buildDisabled_def handleSubmit_def)

theorem manual_chart_validation_witness:
  "active_session (initial_state\<lparr>sessionId := Some ''s1''\<rparr>) = Some ''s1''
   \<and> snd (handleBuildManualChart_begin (initial_state\<lparr>sessionId := Some ''s1''\<rparr>)
        \<lparr>chartType = Bar, groupBy = Some ''region'', value' = None, agg = Some AggCount\<rparr>)
     = Some (''s1'', \<lparr>chartType = Bar, groupBy = Some ''region'', value' = None, agg = Some AggCount\<rparr>)
   \<and> AggSum \<noteq> AggCount
   \<and> \<not> ready ''region'' [] AggSum False
   \<and> clickBuild Bar ''region'' [] AggSum False False = None
   \<and> ''region'' \<noteq> [] \<and> \<not> False
   \<and> ready ''region'' [] AggCount False
   \<and> clickBuild Bar ''region'' [] AggCount False False =
        Some \<lparr>chartType = Bar, groupBy = Some ''region'', value' = None, agg = Some AggCount\<rparr>"
proof -
  have s: "active_session (initial_state\<lparr>sessionId := Some ''s1''\<rparr>) = Some ''s1''"
    by (simp add: active_session_def initial_state_def)
  from s manual_chart_validation [of "initial_state\<lparr>sessionId := Some ''s1''\<rparr>" "''s1''"
      "\<lparr>chartType = Bar, groupBy = Some ''region'', value' = None, agg = Some AggCount\<rparr>"
      AggSum "''region''" False Bar False "[]"]
  show ?thesis by simp
qed

text \<open>
  C7 as stated fails in the orchestrator: with an active session, a request with
  aggregation \<^verbatim>\<open>sum\<close> and no value column is sent to the collaborator, no error is set,
  and on success the chart collection is replaced.
\<close>

theorem manual_chart_validation_counterexample:
  "snd (handleBuildManualChart_begin (initial_state\<lparr>sessionId := Some ''s1''\<rparr>)
        \<lparr>chartType = Bar, groupBy = Some ''region'', value' = None, agg = Some AggSum\<rparr>)
     = Some (''s1'', \<lparr>chartType = Bar, groupBy = Some ''region'', value' = None, agg = Some AggSum\<rparr>)
   \<and> error (fst (handleBuildManualChart_begin (initial_state\<lparr>sessionId := Some ''s1''\<rparr>)
        \<lparr>chartType = Bar, groupBy = Some ''region'', value' = None, agg = Some AggSum\<rparr>)) = None
   \<and> charts (initial_state\<lparr>sessionId := Some ''s1''\<rparr>) = []
   \<and> charts (handleBuildManualChart (initial_state\<lparr>sessionId := Some ''s1''\<rparr>)
        \<lparr>chartType = Bar, groupBy = Some ''region'', value' = None, agg = Some AggSum\<rparr>
        (Inr \<lparr>message = Defined ''built'', ManualChartResponse.chart = kind_chart ''Sum'' ''bar'',
              ManualChartResponse.charts = Defined [kind_chart ''Sum'' ''bar'']\<rparr>))
     = [kind_chart ''Sum'' ''bar'']"
  by (simp add: handleBuildManualChart_def handleBuildManualChart_begin_def
      handleBuildManualChart_settle_def active_session_def initial_state_def)

text \<open>
  C8. With an active session, a successful manual build whose response carries its
  chart collection replaces the state's chart collection by it and leaves the
  transcript as it was; a failed build leaves the chart collection, the transcript
  and the session identifier as they were and sets only the error, the status and the
  busy flag.
\<close>

theorem manual_chart_frame:
  "hasDataset st \<Longrightarrow>
     (ManualChartResponse.charts r = Defined cs \<longrightarrow>
        charts (handleBuildManualChart st payload (Inr r)) = cs)
   \<and> history (handleBuildManualChart st payload (Inr r)) = history st
   \<and> charts (handleBuildManualChart st payload (Inl err)) = charts st
   \<and> history (handleBuildManualChart st payload (Inl err)) = history st
   \<and> sessionId (handleBuildManualChart st payload (Inl err)) = sessionId st
   \<and> handleBuildManualChart st payload (Inl err) =
       st\<lparr>error := Some (error_text err ''Failed to build manual chart.''),
          status := ''Manual chart failed. Adjust selections and retry.'',
          manualLoading := False\<rparr>"
  by (auto simp: hasDataset_def handleBuildManualChart_def handleBuildManualChart_begin_def
      handleBuildManualChart_settle_def)

theorem manual_chart_frame_witness:
  "hasDataset (initial_state\<lparr>sessionId := Some ''s1'', charts := [kind_chart ''old'' ''pie''],
       history := [\<lparr>role = user, content = ''hi''\<rparr>]\<rparr>)
   \<and> charts (handleBuildManualChart (initial_state\<lparr>sessionId := Some ''s1'',
         charts := [kind_chart ''old'' ''pie''], history := [\<lparr>role = user, content = ''hi''\<rparr>]\<rparr>)
       \<lparr>chartType = Bar, groupBy = Some ''region'', value' = None, agg = Some AggCount\<rparr>
       (Inr \<lparr>message = Defined ''built'', ManualChartResponse.chart = kind_chart ''Count'' ''bar'',
             ManualChartResponse.charts = Defined [kind_chart ''Count'' ''bar'']\<rparr>))
     = [kind_chart ''Count'' ''bar'']
   \<and> history (handleBuildManualChart (initial_state\<lparr>sessionId := Some ''s1'',
         charts := [kind_chart ''old'' ''pie''], history := [\<lparr>role = user, content = ''hi''\<rparr>]\<rparr>)
       \<lparr>chartType = Bar, groupBy = Some ''region'', value' = None, agg = Some AggCount\<rparr>
       (Inr \<lparr>message = Defined ''built'', ManualChartResponse.chart = kind_chart ''Count'' ''bar'',
             ManualChartResponse.charts = Defined [kind_chart ''Count'' ''bar'']\<rparr>))
     = [\<lparr>role = user, content = ''hi''\<rparr>]
   \<and> charts (handleBuildManualChart (initial_state\<lparr>sessionId := Some ''s1'',
         charts := [kind_chart ''old'' ''pie''], history := [\<lparr>role = user, content = ''hi''\<rparr>]\<rparr>)
       \<lparr>chartType = Bar, groupBy = Some ''region'', value' = None, agg = Some AggCount\<rparr>
       (Inl OtherThrown))
     = [kind_chart ''old'' ''pie'']"
proof -
  let ?st = "initial_state\<lparr>sessionId := Some ''s1'', charts := [kind_chart ''old'' ''pie''],
       history := [\<lparr>role = user, content = ''hi''\<rparr>]\<rparr>"
  let ?p = "\<lparr>chartType = Bar, groupBy = Some ''region'', value' = None, agg = Some AggCount\<rparr>"
  let ?r = "\<lparr>message = Defined ''built'', ManualChartResponse.chart = kind_chart ''Count'' ''bar'',
             ManualChartResponse.charts = Defined [kind_chart ''Count'' ''bar'']\<rparr>"
  have h: "hasDataset ?st"
    by (simp add: hasDataset_def active_session_def initial_state_def)
  from manual_chart_frame [OF h, of ?r "[kind_chart ''Count'' ''bar'']" ?p OtherThrown] h
  show ?thesis by simp
qed

text \<open>
  C9, as amended. When at least one column summary is present, the rows displayed are
  exactly the first 8 rows of the preview (all of them when there are fewer); with no
  column summary the component shows its placeholder and no preview row.
\<close>

theorem preview_cap:
  "(length cols \<noteq> 0 \<longrightarrow> DataPreview cols rows = Some (cols, take 8 rows))
   \<and> (length cols = 0 \<longrightarrow> DataPreview cols rows = None)
   \<and> visiblePreview rows = take 8 rows
   \<and> length (visiblePreview rows) \<le> 8"
  by (simp add: DataPreview_def visiblePreview_def slice_prefix)

theorem preview_cap_witness:
  "length [\<lparr>name = ''region'', dtype = ''object'', non_null = 9, sample_values = []\<rparr>] \<noteq> 0
   \<and> DataPreview [\<lparr>name = ''region'', dtype = ''object'', non_null = 9, sample_values = []\<rparr>]
        (map (\<lambda>i. [(''region'', JNum i)]) [1, 2, 3, 4, 5, 6, 7, 8, 9])
     = Some ([\<lparr>name = ''region'', dtype = ''object'', non_null = 9, sample_values = []\<rparr>],
             map (\<lambda>i. [(''region'', JNum i)]) [1, 2, 3, 4, 5, 6, 7, 8])
   \<and> length ([] :: ColumnSummary list) = 0
   \<and> DataPreview [] [[(''region'', JNum 1)]] = None"
  using preview_cap [of "[\<lparr>name = ''region'', dtype = ''object'', non_null = 9, sample_values = []\<rparr>]"
      "map (\<lambda>i. [(''region'', JNum i)]) [1, 2, 3, 4, 5, 6, 7, 8, 9]"]
    preview_cap [of "[]" "[[(''region'', JNum 1)]]"]
  by simp

text \<open>
  C9 as stated fails for an upload response with rows but no column summary: after the
  upload the preview holds one row and none is displayed.
\<close>

theorem preview_cap_counterexample:
  "preview (handleUpload initial_state ()
      (Inr \<lparr>UploadResponse.sessionId = ''s1'', UploadResponse.columns = [],
            UploadResponse.preview = [[(''region'', JStr ''EU'')]]\<rparr>))
     = [[(''region'', JStr ''EU'')]]
   \<and> DataPreview
       (columns (handleUpload initial_state ()
          (Inr \<lparr>UploadResponse.sessionId = ''s1'', UploadResponse.columns = [],
                UploadResponse.preview = [[(''region'', JStr ''EU'')]]\<rparr>)))
       (preview (handleUpload initial_state ()
          (Inr \<lparr>UploadResponse.sessionId = ''s1'', UploadResponse.columns = [],
                UploadResponse.preview = [[(''region'', JStr ''EU'')]]\<rparr>)))
     = None"
  by (simp add: handleUpload_def handleUpload_begin_def handleUpload_settle_def
      DataPreview_def initial_state_def)

text \<open>
  C10. With an active session, a successful chat response whose chart field is missing
  or \<^verbatim>\<open>null\<close> leaves the chart collection empty, one whose transcript field is missing
  or \<^verbatim>\<open>null\<close> leaves the transcript empty, and a successful manual-build response
  whose chart field is missing or \<^verbatim>\<open>null\<close> leaves the chart collection empty: the
  value held before is not kept.
\<close>

theorem missing_fields_default_empty:
  "hasDataset st \<Longrightarrow>
     (ChatResponse.charts r = Undefined \<or> ChatResponse.charts r = Null \<longrightarrow>
        charts (handleSendMessage st msg (Inr r)) = [])
   \<and> (ChatResponse.history r = Undefined \<or> ChatResponse.history r = Null \<longrightarrow>
        history (handleSendMessage st msg (Inr r)) = [])
   \<and> (ManualChartResponse.charts m = Undefined \<or> ManualChartResponse.charts m = Null \<longrightarrow>
        charts (handleBuildManualChart st payload (Inr m)) = [])"
  by (auto simp: hasDataset_def handleSendMessage_def handleSendMessage_begin_def
      handleSendMessage_settle_def handleBuildManualChart_def handleBuildManualChart_begin_def
      handleBuildManualChart_settle_def)

theorem missing_fields_default_empty_witness:
  "hasDataset (initial_state\<lparr>sessionId := Some ''s1'', charts := [kind_chart ''old'' ''pie''],
       history := [\<lparr>role = user, content = ''hi''\<rparr>]\<rparr>)
   \<and> charts (handleSendMessage (initial_state\<lparr>sessionId := Some ''s1'',
         charts := [kind_chart ''old'' ''pie''], history := [\<lparr>role = user, content = ''hi''\<rparr>]\<rparr>)
       ''plot sales''
       (Inr \<lparr>reply = ''done'', ChatResponse.charts = Undefined, ChatResponse.history = Null\<rparr>))
     = []
   \<and> history (handleSendMessage (initial_state\<lparr>sessionId := Some ''s1'',
         charts := [kind_chart ''old'' ''pie''], history := [\<lparr>role = user, content = ''hi''\<rparr>]\<rparr>)
       ''plot sales''
       (Inr \<lparr>reply = ''done'', ChatResponse.charts = Undefined, ChatResponse.history = Null\<rparr>))
     = []
   \<and> charts (handleBuildManualChart (initial_state\<lparr>sessionId := Some ''s1'',
         charts := [kind_chart ''old'' ''pie''], history := [\<lparr>role = user, content = ''hi''\<rparr>]\<rparr>)
       \<lparr>chartType = Bar, groupBy = Some ''region'', value' = None, agg = Some AggCount\<rparr>
       (Inr \<lparr>message = Undefined, ManualChartResponse.chart = kind_chart ''Count'' ''bar'',
             ManualChartResponse.charts = Undefined\<rparr>))
     = []"
proof -
  let ?st = "initial_state\<lparr>sessionId := Some ''s1'', charts := [kind_chart ''old'' ''pie''],
       history := [\<lparr>role = user, content = ''hi''\<rparr>]\<rparr>"
  let ?r = "\<lparr>reply = ''done'', ChatResponse.charts = Undefined, ChatResponse.history = Null\<rparr>"
  let ?p = "\<lparr>chartType = Bar, groupBy = Some ''region'', value' = None, agg = Some AggCount\<rparr>"
  let ?m = "\<lparr>message = Undefined, ManualChartResponse.chart = kind_chart ''Count'' ''bar'',
             ManualChartResponse.charts = Undefined\<rparr>"
  have h: "hasDataset ?st"
    by (simp add: hasDataset_def active_session_def initial_state_def)
  from missing_fields_default_empty [OF h, of ?r "''plot sales''" ?m ?p] h
  show ?thesis by simp
qed

end
